theory Spec2Isabelle
  imports Complex_Main "HOL-Library.Word"
begin

section \<open>JavaScript values\<close>

text \<open>
  A JavaScript string is a sequence of 16-bit code units. The literals of the source are
  ASCII, so \<open>lit\<close> turns an ASCII literal into its code units.
\<close>

type_synonym code_unit = "16 word"
type_synonym js_string = "code_unit list"

definition lit :: "string \<Rightarrow> js_string" where
  "lit s = map (\<lambda>c. of_nat (of_char c)) s"

text \<open>
  The values \<open>JSON.parse\<close> can return, and \<open>undefined\<close> (what reading an absent property
  gives). An object is the association list of its own properties; the first binding of a
  key is the property. A number parsed from JSON is finite, so a rational stands for it
  (only whether it is zero is ever looked at).
\<close>

datatype jsval =
    JUndefined
  | JNull
  | JBool bool
  | JNum rat
  | JStr js_string
  | JArr "jsval list"
  | JObj "(js_string \<times> jsval) list"

text \<open>What the source throws: \<open>new Error(message)\<close>, or a \<open>TypeError\<close> of the runtime.\<close>

datatype js_error =
    Error (error_message: js_string)
  | TypeError (error_message: js_string)

text \<open>The truthiness test of \<open>if (v)\<close>, \<open>a && b\<close> and \<open>!v\<close>.\<close>

fun js_truthy :: "jsval \<Rightarrow> bool" where
  "js_truthy JUndefined = False"
| "js_truthy JNull = False"
| "js_truthy (JBool b) = b"
| "js_truthy (JNum n) = (n \<noteq> 0)"
| "js_truthy (JStr s) = (s \<noteq> [])"
| "js_truthy (JArr xs) = True"
| "js_truthy (JObj kvs) = True"

text \<open>
  Reading \<open>v.k\<close> for a key \<open>k\<close> that no built-in prototype defines (the handler reads
  \<open>from\<close>, \<open>message_type\<close>, \<open>text\<close>, \<open>status\<close> and \<open>messageId\<close>, a \<open>catch\<close> reads
  \<open>message\<close>): on \<open>null\<close> and
  \<open>undefined\<close> it throws a \<open>TypeError\<close>, on an object it gives the own property or
  \<open>undefined\<close>, on every other value \<open>undefined\<close>.
\<close>

fun get_prop :: "jsval \<Rightarrow> js_string \<Rightarrow> js_error + jsval" where
  "get_prop JUndefined k =
     Inl (TypeError (lit ''Cannot read properties of undefined (reading '' @ [0x27] @ k @ [0x27] @ lit '')''))"
| "get_prop JNull k =
     Inl (TypeError (lit ''Cannot read properties of null (reading '' @ [0x27] @ k @ [0x27] @ lit '')''))"
| "get_prop (JObj kvs) k = Inr (case map_of kvs k of None \<Rightarrow> JUndefined | Some v \<Rightarrow> v)"
| "get_prop v k = Inr JUndefined"

text \<open>
  What a call into an SDK can be rejected with: any JavaScript value can be thrown, an
  error object or a plain value, also \<open>undefined\<close> and \<open>null\<close>. A \<open>catch (error)\<close> that
  reads \<open>error.message\<close> gets the message of an error object and the property of a plain
  value, and throws a \<open>TypeError\<close> itself when the value is \<open>undefined\<close> or \<open>null\<close>.
\<close>

datatype thrown =
    Exception js_error
  | Value jsval

fun read_message :: "thrown \<Rightarrow> js_error + jsval" where
  "read_message (Exception e) = Inr (JStr (error_message e))"
| "read_message (Value v) = get_prop v (lit ''message'')"

text \<open>
  A template literal \<open>`... ${v} ...`\<close> converts \<open>v\<close> to a string. For a value that came out
  of \<open>JSON.parse\<close> the conversion throws a \<open>TypeError\<close> exactly when it meets an object
  with an own property \<open>toString\<close>: that property is not callable, and the inherited
  \<open>valueOf\<close> returns the object itself. An array is joined, each element converted in
  turn, \<open>null\<close> elements giving the empty string.
\<close>

fun to_string_throws :: "jsval \<Rightarrow> bool" where
  "to_string_throws (JObj kvs) = (lit ''toString'' \<in> fst ` set kvs)"
| "to_string_throws (JArr xs) = list_ex to_string_throws xs"
| "to_string_throws v = False"

definition template_literal :: "jsval list \<Rightarrow> js_error + unit" where
  "template_literal vs =
     (if list_ex to_string_throws vs
      then Inl (TypeError (lit ''Cannot convert object to primitive value''))
      else Inr ())"

text \<open>
  \<open>String.prototype.trim\<close> removes the white space and line terminators of ECMAScript
  from both ends.
\<close>

definition is_white_space :: "code_unit \<Rightarrow> bool" where
  "is_white_space c \<longleftrightarrow>
     c \<in> {0x0009, 0x000A, 0x000B, 0x000C, 0x000D, 0x0020, 0x00A0, 0x1680,
          0x2028, 0x2029, 0x202F, 0x205F, 0x3000, 0xFEFF}
     \<or> (0x2000 \<le> c \<and> c \<le> 0x200A)"

definition trim :: "js_string \<Rightarrow> js_string" where
  "trim s = rev (dropWhile is_white_space (rev (dropWhile is_white_space s)))"

text \<open>
  \<open>s.replace(p, r)\<close> with a string pattern \<open>p\<close> and a replacement \<open>r\<close> without \<open>$\<close>: the
  first occurrence of the pattern is replaced, the rest of the string is kept.
\<close>

fun replace :: "js_string \<Rightarrow> js_string \<Rightarrow> js_string \<Rightarrow> js_string" where
  "replace [] p r = (if p = [] then r else [])"
| "replace (c # cs) p r =
     (if take (length p) (c # cs) = p then r @ drop (length p) (c # cs)
      else c # replace cs p r)"

section \<open>The collaborators: generation backend and messaging provider\<close>

text \<open>
  The argument of \<open>ai.models.generateContent\<close> and what it resolves to. \<open>response.text\<close>
  is \<open>None\<close> when the response carries no text (\<open>undefined\<close>).
\<close>

record part =
  part_text :: jsval

record content =
  role :: js_string
  parts :: "part list"

datatype tool = GoogleSearch

record gen_config =
  tools :: "tool list"
  systemInstruction :: js_string
  temperature :: rat

record gen_request =
  model :: js_string
  contents :: "content list"
  config :: gen_config

record gen_response =
  response_text :: "js_string option"

type_synonym genai_client = "gen_request \<Rightarrow> thrown + gen_response"

text \<open>
  The argument of \<open>vonage.messages.send\<close> and the receipt it resolves to. A field that
  the object literal of the source does not have is \<open>None\<close>.
\<close>

record image_ref =
  url :: jsval

record parameter =
  param_type :: js_string
  image :: "image_ref option"
  param_text :: "jsval option"

record component =
  comp_type :: js_string
  parameters :: "parameter list"

record template =
  name :: jsval
  language_code :: jsval
  components :: "component list"

record outbound =
  msg_to :: jsval
  msg_from :: js_string
  msg_messageType :: js_string
  msg_channel :: js_string
  msg_text :: "js_string option"
  msg_template :: "template option"

record receipt =
  message_uuid :: js_string

type_synonym vonage_client = "outbound \<Rightarrow> js_error + receipt"

text \<open>
  The calls a run makes, in order: the two service methods the handler calls, and the
  two calls that leave the process, each with what it came back with.
\<close>

datatype event =
    GenerateReply jsval
  | GenerateContent gen_request "thrown + gen_response"
  | SendTextMessage jsval js_string
  | MessagesSend outbound "js_error + receipt"

fun generateReply_arg :: "event \<Rightarrow> jsval list" where
  "generateReply_arg (GenerateReply v) = [v]"
| "generateReply_arg ev = []"

fun generateContent_arg :: "event \<Rightarrow> gen_request list" where
  "generateContent_arg (GenerateContent request outcome) = [request]"
| "generateContent_arg ev = []"

fun sendTextMessage_arg :: "event \<Rightarrow> (jsval \<times> js_string) list" where
  "sendTextMessage_arg (SendTextMessage to text) = [(to, text)]"
| "sendTextMessage_arg ev = []"

fun messagesSend_arg :: "event \<Rightarrow> outbound list" where
  "messagesSend_arg (MessagesSend payload outcome) = [payload]"
| "messagesSend_arg ev = []"

text \<open>The calls of each kind in a run, by their arguments.\<close>

definition generateReply_calls :: "event list \<Rightarrow> jsval list" where
  "generateReply_calls tr = concat (map generateReply_arg tr)"

definition generateContent_calls :: "event list \<Rightarrow> gen_request list" where
  "generateContent_calls tr = concat (map generateContent_arg tr)"

definition sendTextMessage_calls :: "event list \<Rightarrow> (jsval \<times> js_string) list" where
  "sendTextMessage_calls tr = concat (map sendTextMessage_arg tr)"

definition messagesSend_calls :: "event list \<Rightarrow> outbound list" where
  "messagesSend_calls tr = concat (map messagesSend_arg tr)"

section \<open>LLMService\<close>

text \<open>\<open>isReady\<close> is the promise of \<open>_initializeClient\<close>, once it has settled.\<close>

datatype promise = Fulfilled | Rejected js_error

record LLMService =
  ai :: "genai_client option"
  svc_model :: js_string
  systemPrompt :: js_string
  isReady :: promise

text \<open>
  The constructor with \<open>_initializeClient\<close>: \<open>GEMINI_API_KEY\<close> is the environment
  variable, \<open>prompt\<close> what \<open>_buildSystemPrompt\<close> returned, \<open>imported\<close> what the dynamic
  import and \<open>new GoogleGenAI\<close> gave: the client, or the error that \<open>_initializeClient\<close>
  logs and throws again, which leaves \<open>ai\<close> at \<open>null\<close> and rejects \<open>isReady\<close>.
\<close>

definition LLMService_new ::
  "js_string option \<Rightarrow> js_string \<Rightarrow> js_error + genai_client \<Rightarrow> js_error + LLMService" where
  "LLMService_new GEMINI_API_KEY prompt imported =
     (if GEMINI_API_KEY = None \<or> GEMINI_API_KEY = Some []
      then Inl (Error (lit
        ''CRITICAL: LLMService failed: GEMINI_API_KEY is not set. Cannot initialize.''))
      else Inr (case imported of
          Inr client \<Rightarrow>
            \<lparr>ai = Some client, svc_model = lit ''gemini-2.5-flash'',
             systemPrompt = prompt, isReady = Fulfilled\<rparr>
        | Inl err \<Rightarrow>
            \<lparr>ai = None, svc_model = lit ''gemini-2.5-flash'',
             systemPrompt = prompt, isReady = Rejected err\<rparr>))"

definition APOLOGY :: js_string where
  "APOLOGY = lit (''Apologies, Sohan! I'' @ [CHR 0x27] @ ''m running into a core system error. ''
     @ ''Could you please rephrase your request or try a technical topic?'')"

definition NOT_READY :: js_error where
  "NOT_READY = Error (lit ''LLMService is not ready. Client initialization failed.'')"

text \<open>
  The argument of the generation call: \<open>contents\<close> and \<open>config\<close> as \<open>generateReply\<close>
  builds them, and the model of the service.
\<close>

definition generation_request :: "LLMService \<Rightarrow> jsval \<Rightarrow> gen_request" where
  "generation_request this userMessage =
     \<lparr>model = svc_model this,
      contents = [\<lparr>role = lit ''user'', parts = [\<lparr>part_text = userMessage\<rparr>]\<rparr>],
      config = \<lparr>tools = [GoogleSearch], systemInstruction = systemPrompt this,
                temperature = 6 / 10\<rparr>\<rparr>"

text \<open>
  \<open>await this.isReady\<close> throws what a rejected \<open>isReady\<close> was rejected with. The log line
  before the \<open>try\<close> converts \<open>userMessage\<close> to a string. Inside the \<open>try\<close>, what the
  call is rejected with, or the \<open>TypeError\<close> of \<open>response.text.trim()\<close> on a response
  without text, ends in the \<open>catch\<close>. The \<open>catch\<close> reads \<open>error.message\<close> for its log line
  and then returns the apology; when that read throws, the \<open>TypeError\<close> leaves
  \<open>generateReply\<close>.
\<close>

definition generateReply ::
  "LLMService \<Rightarrow> jsval \<Rightarrow> (js_error + js_string) \<times> event list" where
  "generateReply this userMessage =
     (case isReady this of
        Rejected err \<Rightarrow> (Inl err, [])
      | Fulfilled \<Rightarrow>
          (case ai this of
             None \<Rightarrow> (Inl NOT_READY, [])
           | Some client \<Rightarrow>
               (case template_literal [userMessage] of
                  Inl e \<Rightarrow> (Inl e, [])
                | Inr _ \<Rightarrow>
                    let request = generation_request this userMessage;
                        outcome = client request
                    in (case outcome of
                          Inl error \<Rightarrow>
                            (case read_message error of
                               Inl e \<Rightarrow> (Inl e, [GenerateContent request outcome])
                             | Inr m \<Rightarrow> (Inr APOLOGY, [GenerateContent request outcome]))
                        | Inr response \<Rightarrow>
                            (case response_text response of
                               None \<Rightarrow> (Inr APOLOGY, [GenerateContent request outcome])
                             | Some t \<Rightarrow>
                                 (Inr (trim t), [GenerateContent request outcome]))))))"

section \<open>WhatsAppService\<close>

record WhatsAppService =
  vonageWhatsAppNumber :: js_string
  vonage :: vonage_client

definition WhatsAppService_new ::
  "js_string option \<Rightarrow> vonage_client \<Rightarrow> js_error + WhatsAppService" where
  "WhatsAppService_new VONAGE_WHATSAPP_NUMBER client =
     (case VONAGE_WHATSAPP_NUMBER of
        None \<Rightarrow> Inl (Error (lit
          ''VONAGE_WHATSAPP_NUMBER is not set. Cannot initialize WhatsAppService.''))
      | Some n \<Rightarrow>
          if n = []
          then Inl (Error (lit
            ''VONAGE_WHATSAPP_NUMBER is not set. Cannot initialize WhatsAppService.''))
          else Inr \<lparr>vonageWhatsAppNumber = n, vonage = client\<rparr>)"

text \<open>The object literal that \<open>sendTextMessage\<close> passes to \<open>vonage.messages.send\<close>.\<close>

definition text_payload :: "WhatsAppService \<Rightarrow> jsval \<Rightarrow> js_string \<Rightarrow> outbound" where
  "text_payload this to text =
     (let cleanedFromNumber = replace (vonageWhatsAppNumber this) (lit ''+'') []
      in \<lparr>msg_to = to, msg_from = cleanedFromNumber, msg_messageType = lit ''text'',
          msg_channel = lit ''whatsapp'', msg_text = Some text, msg_template = None\<rparr>)"

definition sendTextMessage ::
  "WhatsAppService \<Rightarrow> jsval \<Rightarrow> js_string \<Rightarrow> (js_error + receipt) \<times> event list" where
  "sendTextMessage this to text =
     (let payload = text_payload this to text;
          outcome = vonage this payload
      in (case outcome of
            Inr response \<Rightarrow> Inr response
          | Inl error \<Rightarrow>
              Inl (Error (lit ''Failed to send WhatsApp message: '' @ error_message error)),
          [MessagesSend payload outcome]))"

text \<open>
  \<open>bodyParameters\<close> is \<open>None\<close> for \<open>null\<close> or \<open>undefined\<close>, otherwise the array of
  \<open>{value: ...}\<close> objects. \<open>mediaUrl\<close> has the default \<open>null\<close>, which an omitted
  (\<open>undefined\<close>) argument gets.
\<close>

record body_parameter =
  param_value :: jsval

definition template_components :: "body_parameter list option \<Rightarrow> jsval \<Rightarrow> component list" where
  "template_components bodyParameters mediaUrl =
     (if js_truthy mediaUrl
      then [\<lparr>comp_type = lit ''header'',
              parameters = [\<lparr>param_type = lit ''image'',
                              image = Some \<lparr>url = mediaUrl\<rparr>,
                              param_text = None\<rparr>]\<rparr>]
      else [])
     @ (case bodyParameters of
          None \<Rightarrow> []
        | Some ps \<Rightarrow>
            if length ps > 0
            then [\<lparr>comp_type = lit ''body'',
                    parameters = map (\<lambda>p. \<lparr>param_type = lit ''text'', image = None,
                                             param_text = Some (param_value p)\<rparr>) ps\<rparr>]
            else [])"

definition template_payload ::
  "WhatsAppService \<Rightarrow> jsval \<Rightarrow> jsval \<Rightarrow> jsval \<Rightarrow> body_parameter list option \<Rightarrow> jsval
     \<Rightarrow> outbound" where
  "template_payload this to templateName templateLanguage bodyParameters mediaUrl =
     (let mediaUrl = (if mediaUrl = JUndefined then JNull else mediaUrl)
      in \<lparr>msg_to = to, msg_from = vonageWhatsAppNumber this,
          msg_messageType = lit ''template'', msg_channel = lit ''whatsapp'', msg_text = None,
          msg_template = Some \<lparr>name = templateName, language_code = templateLanguage,
                                components = template_components bodyParameters mediaUrl\<rparr>\<rparr>)"

definition sendTemplateMessage ::
  "WhatsAppService \<Rightarrow> jsval \<Rightarrow> jsval \<Rightarrow> jsval \<Rightarrow> body_parameter list option \<Rightarrow> jsval
     \<Rightarrow> (js_error + receipt) \<times> event list" where
  "sendTemplateMessage this to templateName templateLanguage bodyParameters mediaUrl =
     (let payload = template_payload this to templateName templateLanguage
                      bodyParameters mediaUrl;
          outcome = vonage this payload
      in (case outcome of
            Inr response \<Rightarrow> Inr response
          | Inl error \<Rightarrow>
              Inl (Error (lit ''Failed to send rich media template: '' @ error_message error)),
          [MessagesSend payload outcome]))"

section \<open>The inbound webhook handler\<close>

record services =
  whatsAppService :: WhatsAppService
  llmService :: LLMService

record http_response =
  status :: nat
  body :: js_string

definition OK_200 :: http_response where
  "OK_200 = \<lparr>status = 200, body = lit ''Message processed successfully.''\<rparr>"

definition BAD_400 :: http_response where
  "BAD_400 = \<lparr>status = 400, body = lit ''Invalid JSON payload.''\<rparr>"

text \<open>
  The \<open>try\<close> block of the text branch and its \<open>catch\<close>, which only logs: whatever
  \<open>generateReply\<close> or \<open>sendTextMessage\<close> throws ends here.
\<close>

definition reply_block :: "services \<Rightarrow> jsval \<Rightarrow> jsval \<Rightarrow> event list" where
  "reply_block sv from textContent =
     (case generateReply (llmService sv) textContent of
        (Inl error, t1) \<Rightarrow> GenerateReply textContent # t1
      | (Inr llmReply, t1) \<Rightarrow>
          (case sendTextMessage (whatsAppService sv) from llmReply of
             (sent, t2) \<Rightarrow>
               GenerateReply textContent # t1 @ SendTextMessage from llmReply # t2))"

text \<open>
  The handler of \<open>POST /vonage/inbound\<close>. \<open>parsed\<close> is what \<open>JSON.parse(req.body)\<close>
  gave: the value, or the error it threw. The result is the response the handler sent, or
  the error it threw before sending one (nothing around the handler catches it and no
  response is written), and the calls it made.
\<close>

definition inbound_handler ::
  "services \<Rightarrow> js_error + jsval \<Rightarrow> (js_error + http_response) \<times> event list" where
  "inbound_handler sv parsed =
     (case parsed of
        Inl e \<Rightarrow> (Inr BAD_400, [])
      | Inr message \<Rightarrow>
     (case get_prop message (lit ''from'') of
        Inl e \<Rightarrow> (Inl e, [])
      | Inr from \<Rightarrow>
     (case get_prop message (lit ''message_type'') of
        Inl e \<Rightarrow> (Inl e, [])
      | Inr messageType \<Rightarrow>
     (case get_prop message (lit ''text'') of
        Inl e \<Rightarrow> (Inl e, [])
      | Inr textContent \<Rightarrow>
          if messageType = JStr (lit ''text'') \<and> js_truthy textContent then
            (case template_literal [from, textContent] of
               Inl e \<Rightarrow> (Inl e, [])
             | Inr _ \<Rightarrow> (Inr OK_200, reply_block sv from textContent))
          else if js_truthy messageType then
            (case template_literal [messageType, from] of
               Inl e \<Rightarrow> (Inl e, [])
             | Inr _ \<Rightarrow> (Inr OK_200, []))
          else
            (case get_prop message (lit ''status'') of
               Inl e \<Rightarrow> (Inl e, [])
             | Inr st \<Rightarrow>
                 if js_truthy st then
                   (case get_prop message (lit ''messageId'') of
                      Inl e \<Rightarrow> (Inl e, [])
                    | Inr messageId \<Rightarrow>
                        (case template_literal [st, messageId] of
                           Inl e \<Rightarrow> (Inl e, [])
                         | Inr _ \<Rightarrow> (Inr OK_200, [])))
                 else (Inr OK_200, []))))))"

section \<open>Example collaborators and payloads\<close>

text \<open>
  Concrete services and payloads, on which the definitions above are evaluated: a
  generation backend that answers, one that raises an error and one whose call is
  rejected with \<open>undefined\<close>, a service whose initialisation
  failed, a provider that accepts and one
  that refuses, and the payload \<open>{"from": f, "message_type": "text", "text": t}\<close>.
\<close>

definition greeting_client :: genai_client where
  "greeting_client request = Inr \<lparr>response_text = Some (lit ''  Hello!  '')\<rparr>"

definition failing_client :: genai_client where
  "failing_client request = Inl (Exception (Error (lit ''429 quota exceeded'')))"

definition rejecting_client :: genai_client where
  "rejecting_client request = Inl (Value JUndefined)"

definition accepting_vonage :: vonage_client where
  "accepting_vonage payload = Inr \<lparr>message_uuid = lit ''uuid-1''\<rparr>"


definition example_llm :: "genai_client \<Rightarrow> LLMService" where
  "example_llm client =
     \<lparr>ai = Some client, svc_model = lit ''gemini-2.5-flash'',
      systemPrompt = lit ''You are Ari'', isReady = Fulfilled\<rparr>"

definition import_error :: js_error where
  "import_error = Error (lit ''Cannot find package @google/genai'')"

definition failed_llm :: LLMService where
  "failed_llm =
     \<lparr>ai = None, svc_model = lit ''gemini-2.5-flash'',
      systemPrompt = lit ''You are Ari'', isReady = Rejected import_error\<rparr>"

definition example_whatsapp :: "js_string \<Rightarrow> vonage_client \<Rightarrow> WhatsAppService" where
  "example_whatsapp n client = \<lparr>vonageWhatsAppNumber = n, vonage = client\<rparr>"

definition example_services :: "genai_client \<Rightarrow> vonage_client \<Rightarrow> services" where
  "example_services g v =
     \<lparr>whatsAppService = example_whatsapp (lit ''+14155550100'') v,
      llmService = example_llm g\<rparr>"

definition text_message :: "jsval \<Rightarrow> jsval \<Rightarrow> jsval" where
  "text_message f t =
     JObj [(lit ''from'', f), (lit ''message_type'', JStr (lit ''text'')), (lit ''text'', t)]"

section \<open>The shape of a run\<close>

lemma generateReply_shape:
  "generateReply this userMessage = (r, tr) \<Longrightarrow>
     (tr = [] \<and> (\<exists>e. r = Inl e)) \<or>
     (\<exists>request outcome. tr = [GenerateContent request outcome])"
  by (auto simp: generateReply_def Let_def split: promise.splits option.splits sum.splits)

text \<open>
  The two ways out of the \<open>catch\<close> of \<open>generateReply\<close>: the apology, when the message of what
  was caught can be read, and the \<open>TypeError\<close> of that read otherwise.
\<close>

lemma generateReply_raised:
  "generateReply this userMessage = (r, tr) \<Longrightarrow> GenerateContent request (Inl error) \<in> set tr
     \<Longrightarrow> read_message error = Inr m \<Longrightarrow> r = Inr APOLOGY"
  by (auto simp: generateReply_def Let_def split: promise.splits option.splits sum.splits)

lemma generateReply_catch_throws:
  "generateReply this userMessage = (r, tr) \<Longrightarrow> GenerateContent request (Inl error) \<in> set tr
     \<Longrightarrow> read_message error = Inl e \<Longrightarrow> r = Inl e"
  by (auto simp: generateReply_def Let_def split: promise.splits option.splits sum.splits)

lemma sendTextMessage_trace:
  "snd (sendTextMessage this to text) =
     [MessagesSend (text_payload this to text) (vonage this (text_payload this to text))]"
  by (simp add: sendTextMessage_def Let_def)

lemma reply_block_raised:
  assumes "GenerateContent request (Inl error) \<in> set (reply_block sv from textContent)"
    and "read_message error = Inr m"
  shows "sendTextMessage_calls (reply_block sv from textContent) = [(from, APOLOGY)]
       \<and> messagesSend_calls (reply_block sv from textContent)
           = [text_payload (whatsAppService sv) from APOLOGY]"
proof -
  obtain r t1 where g: "generateReply (llmService sv) textContent = (r, t1)"
    by force
  from generateReply_shape [OF g] assms(1) g
  have "GenerateContent request (Inl error) \<in> set t1"
    by (auto simp: reply_block_def sendTextMessage_def Let_def split: sum.splits)
  from generateReply_raised [OF g this assms(2)] have r: "r = Inr APOLOGY" .
  from generateReply_shape [OF g] g r show ?thesis
    by (auto simp: reply_block_def sendTextMessage_def Let_def sendTextMessage_calls_def
        messagesSend_calls_def)
qed

text \<open>A run of the handler that made any call went through the text branch and sent 200.\<close>

lemma handler_trace:
  "inbound_handler sv parsed = (out, tr) \<Longrightarrow> tr \<noteq> [] \<Longrightarrow>
     out = Inr OK_200 \<and>
     (\<exists>message from textContent. parsed = Inr message
        \<and> get_prop message (lit ''from'') = Inr from
        \<and> get_prop message (lit ''text'') = Inr textContent
        \<and> tr = reply_block sv from textContent)"
  by (auto simp: inbound_handler_def split: sum.splits if_splits)

section \<open>Malformed JSON\<close>

text \<open>
  C2. When \<open>JSON.parse\<close> throws on the raw body, whatever the error, the handler responds
  with status 400 and the run contains no call at all: no generation call and no send
  call.
\<close>

theorem C2_parse_failure_400:
  "inbound_handler sv (Inl e) = (Inr BAD_400, []) \<and> status BAD_400 = 400"
  by (simp add: inbound_handler_def BAD_400_def)

section \<open>Generation failure\<close>

text \<open>
  When the generation call made inside \<open>generateReply\<close> raises an error whose message the
  \<open>catch\<close> can read, which every error object and every thrown value other than
  \<open>undefined\<close> and \<open>null\<close> is, \<open>generateReply\<close> returns the fixed apology string: a string, not
  an error, and not the empty string. In a run of the handler in which the generation
  call raised such an error, the one text passed to \<open>sendTextMessage\<close>, and the one text
  handed to the provider, is that string.
\<close>

lemma generation_error_gives_apology:
  "(generateReply this userMessage = (r, tr) \<and> GenerateContent request (Inl error) \<in> set tr
      \<and> read_message error = Inr m
      \<longrightarrow> r = Inr APOLOGY)
   \<and> APOLOGY \<noteq> []
   \<and> (inbound_handler sv parsed = (out, tr') \<and> GenerateContent request' (Inl error') \<in> set tr'
      \<and> read_message error' = Inr m'
      \<longrightarrow> map snd (sendTextMessage_calls tr') = [APOLOGY]
        \<and> map msg_text (messagesSend_calls tr') = [Some APOLOGY])"
proof (intro conjI impI)
  assume "generateReply this userMessage = (r, tr) \<and> GenerateContent request (Inl error) \<in> set tr
      \<and> read_message error = Inr m"
  then show "r = Inr APOLOGY"
    using generateReply_raised by blast
next
  show "APOLOGY \<noteq> []"
    by (simp add: APOLOGY_def lit_def)
next
  assume a: "inbound_handler sv parsed = (out, tr') \<and> GenerateContent request' (Inl error') \<in> set tr'
      \<and> read_message error' = Inr m'"
  then have "tr' \<noteq> []" by auto
  with a obtain sender textContent where tr': "tr' = reply_block sv sender textContent"
    using handler_trace by blast
  with a have "GenerateContent request' (Inl error') \<in> set (reply_block sv sender textContent)"
    and "read_message error' = Inr m'"
    by simp_all
  from reply_block_raised [OF this] tr'
  show "map snd (sendTextMessage_calls tr') = [APOLOGY]"
    and "map msg_text (messagesSend_calls tr') = [Some APOLOGY]"
    by (simp_all add: text_payload_def Let_def)
qed

text \<open>The backend answers 429; the caller gets the apology, and the apology is sent.\<close>

lemma quota_error_run:
  "fst (generateReply (example_llm failing_client) (JStr (lit ''hi''))) = Inr APOLOGY
   \<and> sendTextMessage_calls
        (snd (inbound_handler (example_services failing_client accepting_vonage)
          (Inr (text_message (JStr (lit ''+15551234'')) (JStr (lit ''hi''))))))
       = [(JStr (lit ''+15551234''), APOLOGY)]"
  by (simp add: inbound_handler_def text_message_def example_services_def example_llm_def
      example_whatsapp_def failing_client_def accepting_vonage_def lit_def template_literal_def
      reply_block_def generateReply_def sendTextMessage_def text_payload_def Let_def
      sendTextMessage_calls_def generation_request_def)

text \<open>
  C3 has the apology returned and sent whenever the generation call raises, with any
  error. A call can be rejected with any value. When it is rejected with \<open>undefined\<close>, the
  \<open>catch\<close> of \<open>generateReply\<close> throws a \<open>TypeError\<close> on \<open>error.message\<close>, in front of the
  \<open>return\<close> of the apology: \<open>generateReply\<close> made its one generation call and throws, the
  handler calls \<open>sendTextMessage\<close> not at all and hands the provider nothing, and responds
  200.
\<close>

theorem C3_failing_input:
  "generateReply (example_llm rejecting_client) (JStr (lit ''hi''))
     = (Inl (TypeError (lit ''Cannot read properties of undefined (reading '' @ [0x27]
              @ lit ''message'' @ [0x27] @ lit '')'')),
        [GenerateContent (generation_request (example_llm rejecting_client) (JStr (lit ''hi'')))
           (Inl (Value JUndefined))])
   \<and> fst (generateReply (example_llm rejecting_client) (JStr (lit ''hi''))) \<noteq> Inr APOLOGY
   \<and> inbound_handler (example_services rejecting_client accepting_vonage)
        (Inr (text_message (JStr (lit ''+15551234'')) (JStr (lit ''hi''))))
     = (Inr OK_200,
        [GenerateReply (JStr (lit ''hi'')),
         GenerateContent (generation_request (example_llm rejecting_client) (JStr (lit ''hi'')))
           (Inl (Value JUndefined))])
   \<and> sendTextMessage_calls
        (snd (inbound_handler (example_services rejecting_client accepting_vonage)
          (Inr (text_message (JStr (lit ''+15551234'')) (JStr (lit ''hi'')))))) = []
   \<and> messagesSend_calls
        (snd (inbound_handler (example_services rejecting_client accepting_vonage)
          (Inr (text_message (JStr (lit ''+15551234'')) (JStr (lit ''hi'')))))) = []"
  by (simp add: inbound_handler_def text_message_def example_services_def example_llm_def
      example_whatsapp_def rejecting_client_def accepting_vonage_def lit_def
      template_literal_def reply_block_def generateReply_def Let_def sendTextMessage_calls_def
      messagesSend_calls_def generation_request_def)

section \<open>Send failure\<close>



section \<open>Successful generation\<close>

text \<open>What \<open>trim\<close> removes is white space at the two ends, and it removes all of it.\<close>

lemma rev_dropWhile_takeWhile:
  "xs = rev (dropWhile P (rev xs)) @ rev (takeWhile P (rev xs))"
proof -
  have "rev (takeWhile P (rev xs) @ dropWhile P (rev xs)) = rev (rev xs)"
    by (simp only: takeWhile_dropWhile_id)
  then show ?thesis
    by (simp only: rev_append rev_rev_ident)
qed

lemma trim_decompose:
  "\<exists>pre suf. t = pre @ trim t @ suf \<and> list_all is_white_space pre \<and> list_all is_white_space suf"
proof -
  let ?d = "dropWhile is_white_space t"
  let ?pre = "takeWhile is_white_space t"
  let ?suf = "rev (takeWhile is_white_space (rev ?d))"
  have d: "?d = trim t @ ?suf"
    unfolding trim_def by (rule rev_dropWhile_takeWhile)
  have "t = ?pre @ ?d"
    by (simp only: takeWhile_dropWhile_id)
  with d have "t = ?pre @ trim t @ ?suf"
    by (simp only:)
  moreover have "list_all is_white_space ?pre"
    by (simp add: list_all_iff) (meson set_takeWhileD)
  moreover have "list_all is_white_space ?suf"
    by (simp add: list_all_iff) (meson set_takeWhileD)
  ultimately show ?thesis by blast
qed

lemma trim_ends:
  assumes "trim t \<noteq> []"
  shows "\<not> is_white_space (hd (trim t))" and "\<not> is_white_space (last (trim t))"
proof -
  let ?d = "dropWhile is_white_space t"
  let ?e = "dropWhile is_white_space (rev ?d)"
  from assms have e: "?e \<noteq> []"
    by (simp only: trim_def rev_is_Nil_conv not_False_eq_True)
  then have "\<not> is_white_space (hd ?e)"
    by (rule hd_dropWhile)
  with e show "\<not> is_white_space (last (trim t))"
    by (simp add: trim_def last_rev)
  from e have dne: "?d \<noteq> []"
    by (metis dropWhile.simps(1) rev.simps(1))
  then have nd: "\<not> is_white_space (hd ?d)"
    by (rule hd_dropWhile)
  have "?d = trim t @ rev (takeWhile is_white_space (rev ?d))"
    unfolding trim_def by (rule rev_dropWhile_takeWhile)
  with assms have "hd ?d = hd (trim t)"
    by (metis hd_append2)
  with nd show "\<not> is_white_space (hd (trim t))"
    by simp
qed

text \<open>
  C6. With the client initialised (the precondition of \<open>generateReply\<close>) and a user
  message that converts to a string, as every string does, one invocation issues
  exactly one generation call. Its conversation content is the single user message, its
  configuration enables the search tool, carries the system prompt computed at
  construction and has temperature 0.6. When that call succeeds with the text \<open>t\<close>, the
  reply is \<open>t\<close> trimmed and nothing else: \<open>t\<close> is the reply between two runs of white
  space, and the reply neither starts nor ends with white space.
\<close>

theorem C6_generateReply_success:
  assumes "isReady this = Fulfilled" and "ai this = Some client"
    and "\<not> to_string_throws userMessage"
  shows "generateContent_calls (snd (generateReply this userMessage))
           = [\<lparr>model = svc_model this,
               contents = [\<lparr>role = lit ''user'', parts = [\<lparr>part_text = userMessage\<rparr>]\<rparr>],
               config = \<lparr>tools = [GoogleSearch], systemInstruction = systemPrompt this,
                         temperature = 6 / 10\<rparr>\<rparr>]
       \<and> (\<forall>t. client (generation_request this userMessage) = Inr \<lparr>response_text = Some t\<rparr>
            \<longrightarrow> fst (generateReply this userMessage) = Inr (trim t)
              \<and> (\<exists>pre suf. t = pre @ trim t @ suf
                    \<and> list_all is_white_space pre \<and> list_all is_white_space suf)
              \<and> (trim t \<noteq> [] \<longrightarrow> \<not> is_white_space (hd (trim t))
                                   \<and> \<not> is_white_space (last (trim t))))"
proof (intro conjI allI impI)
  show "generateContent_calls (snd (generateReply this userMessage))
           = [\<lparr>model = svc_model this,
               contents = [\<lparr>role = lit ''user'', parts = [\<lparr>part_text = userMessage\<rparr>]\<rparr>],
               config = \<lparr>tools = [GoogleSearch], systemInstruction = systemPrompt this,
                         temperature = 6 / 10\<rparr>\<rparr>]"
    using assms
    by (simp add: generateReply_def template_literal_def Let_def generateContent_calls_def
        generation_request_def split: sum.splits option.splits)
next
  fix t
  assume "client (generation_request this userMessage) = Inr \<lparr>response_text = Some t\<rparr>"
  with assms show "fst (generateReply this userMessage) = Inr (trim t)"
    by (simp add: generateReply_def template_literal_def Let_def)
next
  fix t
  show "\<exists>pre suf. t = pre @ trim t @ suf
          \<and> list_all is_white_space pre \<and> list_all is_white_space suf"
    by (rule trim_decompose)
next
  fix t
  assume "trim t \<noteq> []"
  then show "\<not> is_white_space (hd (trim t))" and "\<not> is_white_space (last (trim t))"
    by (rule trim_ends)+
qed

text \<open>The backend answers \<open>"  Hello!  "\<close>; the reply is \<open>"Hello!"\<close>.\<close>

theorem C6_witness:
  "isReady (example_llm greeting_client) = Fulfilled
   \<and> ai (example_llm greeting_client) = Some greeting_client
   \<and> \<not> to_string_throws (JStr (lit ''hi''))
   \<and> generateContent_calls (snd (generateReply (example_llm greeting_client) (JStr (lit ''hi''))))
       = [\<lparr>model = lit ''gemini-2.5-flash'',
           contents = [\<lparr>role = lit ''user'', parts = [\<lparr>part_text = JStr (lit ''hi'')\<rparr>]\<rparr>],
           config = \<lparr>tools = [GoogleSearch], systemInstruction = lit ''You are Ari'',
                     temperature = 6 / 10\<rparr>\<rparr>]
   \<and> greeting_client (generation_request (example_llm greeting_client) (JStr (lit ''hi'')))
       = Inr \<lparr>response_text = Some (lit ''  Hello!  '')\<rparr>
   \<and> fst (generateReply (example_llm greeting_client) (JStr (lit ''hi''))) = Inr (lit ''Hello!'')"
  using C6_generateReply_success
    [where this = "example_llm greeting_client" and client = greeting_client
       and userMessage = "JStr (lit ''hi'')"]
  by (simp add: example_llm_def greeting_client_def lit_def trim_def is_white_space_def)

section \<open>The sender identity\<close>

text \<open>The configured sender is the environment variable, and it is not empty.\<close>

lemma configured_sender:
  "WhatsAppService_new VONAGE_WHATSAPP_NUMBER client = Inr this \<Longrightarrow>
     VONAGE_WHATSAPP_NUMBER = Some (vonageWhatsAppNumber this) \<and> vonageWhatsAppNumber this \<noteq> []"
  by (auto simp: WhatsAppService_new_def split: option.splits if_splits)

text \<open>What \<open>replace('+', '')\<close> does to a string, by where its first \<open>+\<close> is.\<close>

lemma lit_plus: "lit ''+'' = [0x2B]"
  by (simp add: lit_def)

lemma replace_first_plus:
  "0x2B \<notin> set pre \<Longrightarrow> replace (pre @ 0x2B # rest) [0x2B] [] = pre @ rest"
  by (induction pre) auto

lemma replace_no_plus:
  "0x2B \<notin> set s \<Longrightarrow> replace s [0x2B] [] = s"
  by (induction s) auto

text \<open>
  C9, as stated, has the sender of a text message equal to the configured number when
  that number has no leading \<open>+\<close>. For the configured number \<open>14+15\<close>, which does not
  start with \<open>+\<close>, the sender is \<open>1415\<close>.
\<close>

theorem C9_counterexample:
  "hd (lit ''14+15'') \<noteq> 0x2B
   \<and> msg_from (text_payload (example_whatsapp (lit ''14+15'') accepting_vonage)
        (JStr (lit ''+15551234'')) (lit ''Hello!'')) = lit ''1415''
   \<and> msg_from (text_payload (example_whatsapp (lit ''14+15'') accepting_vonage)
        (JStr (lit ''+15551234'')) (lit ''Hello!'')) \<noteq> lit ''14+15''"
  by (simp add: text_payload_def example_whatsapp_def lit_def)

text \<open>
  C9, amended. Every call of \<open>sendTextMessage\<close> hands the provider one message, whose
  \<open>from\<close> field is the configured number with its first \<open>+\<close> removed, wherever that \<open>+\<close>
  stands: for a number that starts with \<open>+\<close> it is the number without that leading \<open>+\<close>,
  and for a number without any \<open>+\<close> it is the number itself.
\<close>

theorem C9_sender_first_plus_removed:
  "messagesSend_calls (snd (sendTextMessage this recipient reply))
     = [text_payload this recipient reply]
   \<and> msg_from (text_payload this recipient reply)
       = replace (vonageWhatsAppNumber this) (lit ''+'') (lit '''')
   \<and> (vonageWhatsAppNumber this = pre @ 0x2B # rest \<and> 0x2B \<notin> set pre
        \<longrightarrow> msg_from (text_payload this recipient reply) = pre @ rest)
   \<and> (vonageWhatsAppNumber this = 0x2B # rest'
        \<longrightarrow> msg_from (text_payload this recipient reply) = rest')
   \<and> (0x2B \<notin> set (vonageWhatsAppNumber this)
        \<longrightarrow> msg_from (text_payload this recipient reply) = vonageWhatsAppNumber this)"
proof (intro conjI impI)
  show "messagesSend_calls (snd (sendTextMessage this recipient reply))
     = [text_payload this recipient reply]"
    by (simp add: sendTextMessage_trace messagesSend_calls_def)
  show "msg_from (text_payload this recipient reply)
       = replace (vonageWhatsAppNumber this) (lit ''+'') (lit '''')"
    by (simp add: text_payload_def lit_def)
next
  assume "vonageWhatsAppNumber this = pre @ 0x2B # rest \<and> 0x2B \<notin> set pre"
  then show "msg_from (text_payload this recipient reply) = pre @ rest"
    by (simp add: text_payload_def lit_plus replace_first_plus)
next
  assume "vonageWhatsAppNumber this = 0x2B # rest'"
  then show "msg_from (text_payload this recipient reply) = rest'"
    by (simp add: text_payload_def lit_plus)
next
  assume "0x2B \<notin> set (vonageWhatsAppNumber this)"
  then show "msg_from (text_payload this recipient reply) = vonageWhatsAppNumber this"
    by (simp add: text_payload_def lit_plus replace_no_plus)
qed

text \<open>The numbers \<open>+14155550100\<close>, \<open>14155550100\<close> and \<open>14+15\<close>.\<close>

theorem C9_witness:
  "vonageWhatsAppNumber (example_whatsapp (lit ''+14155550100'') accepting_vonage)
      = 0x2B # lit ''14155550100''
   \<and> msg_from (text_payload (example_whatsapp (lit ''+14155550100'') accepting_vonage)
        (JStr (lit ''+15551234'')) (lit ''Hello!'')) = lit ''14155550100''
   \<and> 0x2B \<notin> set (vonageWhatsAppNumber (example_whatsapp (lit ''14155550100'') accepting_vonage))
   \<and> msg_from (text_payload (example_whatsapp (lit ''14155550100'') accepting_vonage)
        (JStr (lit ''+15551234'')) (lit ''Hello!'')) = lit ''14155550100''
   \<and> vonageWhatsAppNumber (example_whatsapp (lit ''14+15'') accepting_vonage)
      = lit ''14'' @ 0x2B # lit ''15''
   \<and> 0x2B \<notin> set (lit ''14'')
   \<and> msg_from (text_payload (example_whatsapp (lit ''14+15'') accepting_vonage)
        (JStr (lit ''+15551234'')) (lit ''Hello!'')) = lit ''14'' @ lit ''15''"
  using C9_sender_first_plus_removed
    [where this = "example_whatsapp (lit ''+14155550100'') accepting_vonage"
       and recipient = "JStr (lit ''+15551234'')" and reply = "lit ''Hello!''"
       and rest' = "lit ''14155550100''" and pre = "[]" and rest = "lit ''14155550100''"]
    C9_sender_first_plus_removed
    [where this = "example_whatsapp (lit ''14155550100'') accepting_vonage"
       and recipient = "JStr (lit ''+15551234'')" and reply = "lit ''Hello!''"]
    C9_sender_first_plus_removed
    [where this = "example_whatsapp (lit ''14+15'') accepting_vonage"
       and recipient = "JStr (lit ''+15551234'')" and reply = "lit ''Hello!''"
       and pre = "lit ''14''" and rest = "lit ''15''"]
  by (simp add: example_whatsapp_def lit_def)

text \<open>
  C10. When the configured number contains a \<open>+\<close>, the two operations send from
  different identities: \<open>sendTextMessage\<close> sends from the number with its first \<open>+\<close>
  removed, \<open>sendTemplateMessage\<close> from the number as configured.
\<close>

theorem C10_text_and_template_senders_differ:
  assumes "0x2B \<in> set (vonageWhatsAppNumber this)"
  shows "messagesSend_calls (snd (sendTextMessage this recipient reply))
           = [text_payload this recipient reply]
       \<and> messagesSend_calls
           (snd (sendTemplateMessage this recipient' templateName templateLanguage
                   bodyParameters mediaUrl))
           = [template_payload this recipient' templateName templateLanguage
                bodyParameters mediaUrl]
       \<and> msg_from (template_payload this recipient' templateName templateLanguage
            bodyParameters mediaUrl) = vonageWhatsAppNumber this
       \<and> (\<exists>pre rest. vonageWhatsAppNumber this = pre @ 0x2B # rest \<and> 0x2B \<notin> set pre
            \<and> msg_from (text_payload this recipient reply) = pre @ rest)
       \<and> msg_from (text_payload this recipient reply)
           \<noteq> msg_from (template_payload this recipient' templateName templateLanguage
                 bodyParameters mediaUrl)"
proof -
  from assms obtain pre rest where
    number: "vonageWhatsAppNumber this = pre @ 0x2B # rest" "0x2B \<notin> set pre"
    by (meson split_list_first)
  then have from_text: "msg_from (text_payload this recipient reply) = pre @ rest"
    by (simp add: text_payload_def lit_plus replace_first_plus)
  have tpl: "msg_from (template_payload this recipient' templateName templateLanguage
            bodyParameters mediaUrl) = vonageWhatsAppNumber this"
    by (simp add: template_payload_def Let_def)
  have "pre @ rest \<noteq> pre @ 0x2B # rest"
    by simp
  with number from_text tpl show ?thesis
    by (auto simp: sendTextMessage_trace messagesSend_calls_def sendTemplateMessage_def Let_def)
qed

text \<open>Configured \<open>+14155550100\<close>: text from \<open>14155550100\<close>, template from \<open>+14155550100\<close>.\<close>

theorem C10_witness:
  "0x2B \<in> set (vonageWhatsAppNumber (example_whatsapp (lit ''+14155550100'') accepting_vonage))
   \<and> msg_from (text_payload (example_whatsapp (lit ''+14155550100'') accepting_vonage)
        (JStr (lit ''+15551234'')) (lit ''Hello!'')) = lit ''14155550100''
   \<and> msg_from (template_payload (example_whatsapp (lit ''+14155550100'') accepting_vonage)
        (JStr (lit ''+15551234'')) (JStr (lit ''athens_cruise_intro'')) (JStr (lit ''en''))
        None JNull) = lit ''+14155550100''
   \<and> msg_from (text_payload (example_whatsapp (lit ''+14155550100'') accepting_vonage)
        (JStr (lit ''+15551234'')) (lit ''Hello!''))
     \<noteq> msg_from (template_payload (example_whatsapp (lit ''+14155550100'') accepting_vonage)
        (JStr (lit ''+15551234'')) (JStr (lit ''athens_cruise_intro'')) (JStr (lit ''en''))
        None JNull)"
  using C10_text_and_template_senders_differ
    [where this = "example_whatsapp (lit ''+14155550100'') accepting_vonage"
       and recipient = "JStr (lit ''+15551234'')" and reply = "lit ''Hello!''"
       and recipient' = "JStr (lit ''+15551234'')"
       and templateName = "JStr (lit ''athens_cruise_intro'')"
       and templateLanguage = "JStr (lit ''en'')" and bodyParameters = None
       and mediaUrl = JNull]
  by (simp add: example_whatsapp_def lit_def text_payload_def template_payload_def)

section \<open>Template messages\<close>

lemma body_not_header: "lit ''body'' \<noteq> lit ''header''"
  by (simp add: lit_def)

text \<open>
  C5. \<open>sendTemplateMessage\<close> hands the provider one template message, with the
  components list \<open>cs\<close> it built. With a media URL present (a truthy \<open>mediaUrl\<close>, for
  instance a non-empty string), the first element of \<open>cs\<close> is a header component with one
  image parameter whose URL is \<open>mediaUrl\<close>, and no later element is a header. With
  \<open>mediaUrl\<close> omitted (\<open>undefined\<close>), \<open>null\<close> or otherwise falsy, no element of \<open>cs\<close> is a
  header. With non-empty \<open>bodyParameters\<close>, the last element of \<open>cs\<close> is a body component
  with one text parameter per body parameter, the \<open>i\<close>-th carrying the value of the
  \<open>i\<close>-th body parameter.
\<close>

theorem C5_template_components:
  "\<exists>cs. messagesSend_calls
         (snd (sendTemplateMessage this recipient templateName templateLanguage
                 bodyParameters mediaUrl))
        = [\<lparr>msg_to = recipient, msg_from = vonageWhatsAppNumber this,
            msg_messageType = lit ''template'', msg_channel = lit ''whatsapp'',
            msg_text = None,
            msg_template = Some \<lparr>name = templateName, language_code = templateLanguage,
                                  components = cs\<rparr>\<rparr>]
     \<and> (js_truthy mediaUrl \<longrightarrow>
          cs \<noteq> []
          \<and> hd cs = \<lparr>comp_type = lit ''header'',
                     parameters = [\<lparr>param_type = lit ''image'',
                                     image = Some \<lparr>url = mediaUrl\<rparr>,
                                     param_text = None\<rparr>]\<rparr>
          \<and> list_all (\<lambda>c. comp_type c \<noteq> lit ''header'') (tl cs))
     \<and> (\<not> js_truthy mediaUrl \<longrightarrow> list_all (\<lambda>c. comp_type c \<noteq> lit ''header'') cs)
     \<and> (\<forall>ps. bodyParameters = Some ps \<and> ps \<noteq> [] \<longrightarrow>
          cs \<noteq> []
          \<and> comp_type (last cs) = lit ''body''
          \<and> map param_type (parameters (last cs)) = replicate (length ps) (lit ''text'')
          \<and> map param_text (parameters (last cs)) = map (\<lambda>p. Some (param_value p)) ps
          \<and> length (parameters (last cs)) = length ps
          \<and> (\<forall>i < length ps.
                param_text (parameters (last cs) ! i) = Some (param_value (ps ! i))))"
  apply (rule exI [where x = "template_components bodyParameters
                  (if mediaUrl = JUndefined then JNull else mediaUrl)"])
  apply (intro conjI impI allI)
  apply (simp add: sendTemplateMessage_def template_payload_def Let_def messagesSend_calls_def)
  apply (auto simp: template_components_def body_not_header map_replicate_const comp_def split: option.splits)
  done

text \<open>
  A banner and two body parameters give a header and then a body with the two values in
  order; without a media URL, the body is the only component.
\<close>

theorem C5_witness:
  "js_truthy (JStr (lit ''https://example.org/banner.jpg''))
   \<and> \<not> js_truthy JNull
   \<and> [\<lparr>param_value = JStr (lit ''Sohan'')\<rparr>, \<lparr>param_value = JStr (lit ''Standard Cruise'')\<rparr>]
       \<noteq> []
   \<and> messagesSend_calls
         (snd (sendTemplateMessage (example_whatsapp (lit ''14155550100'') accepting_vonage)
            (JStr (lit ''+15551234'')) (JStr (lit ''athens_cruise_intro'')) (JStr (lit ''en''))
            (Some [\<lparr>param_value = JStr (lit ''Sohan'')\<rparr>,
                   \<lparr>param_value = JStr (lit ''Standard Cruise'')\<rparr>])
            (JStr (lit ''https://example.org/banner.jpg''))))
       = [\<lparr>msg_to = JStr (lit ''+15551234''), msg_from = lit ''14155550100'',
           msg_messageType = lit ''template'', msg_channel = lit ''whatsapp'',
           msg_text = None,
           msg_template = Some
             \<lparr>name = JStr (lit ''athens_cruise_intro''), language_code = JStr (lit ''en''),
              components =
                [\<lparr>comp_type = lit ''header'',
                  parameters = [\<lparr>param_type = lit ''image'',
                     image = Some \<lparr>url = JStr (lit ''https://example.org/banner.jpg'')\<rparr>,
                     param_text = None\<rparr>]\<rparr>,
                 \<lparr>comp_type = lit ''body'',
                  parameters = [\<lparr>param_type = lit ''text'', image = None,
                                  param_text = Some (JStr (lit ''Sohan''))\<rparr>,
                                \<lparr>param_type = lit ''text'', image = None,
                                  param_text = Some (JStr (lit ''Standard Cruise''))\<rparr>]\<rparr>]\<rparr>\<rparr>]
   \<and> map comp_type (concat (map (\<lambda>m. components (the (msg_template m)))
         (messagesSend_calls
           (snd (sendTemplateMessage (example_whatsapp (lit ''14155550100'') accepting_vonage)
              (JStr (lit ''+15551234'')) (JStr (lit ''athens_cruise_intro''))
              (JStr (lit ''en''))
              (Some [\<lparr>param_value = JStr (lit ''Sohan'')\<rparr>]) JNull)))))
       = [lit ''body'']"
  using C5_template_components
    [where this = "example_whatsapp (lit ''14155550100'') accepting_vonage"
       and recipient = "JStr (lit ''+15551234'')"
       and templateName = "JStr (lit ''athens_cruise_intro'')"
       and templateLanguage = "JStr (lit ''en'')"
       and bodyParameters = "Some [\<lparr>param_value = JStr (lit ''Sohan'')\<rparr>,
                   \<lparr>param_value = JStr (lit ''Standard Cruise'')\<rparr>]"
       and mediaUrl = "JStr (lit ''https://example.org/banner.jpg'')"]
    C5_template_components
    [where this = "example_whatsapp (lit ''14155550100'') accepting_vonage"
       and recipient = "JStr (lit ''+15551234'')"
       and templateName = "JStr (lit ''athens_cruise_intro'')"
       and templateLanguage = "JStr (lit ''en'')"
       and bodyParameters = "Some [\<lparr>param_value = JStr (lit ''Sohan'')\<rparr>]"
       and mediaUrl = JNull]
  by (simp add: sendTemplateMessage_def template_payload_def template_components_def
      example_whatsapp_def accepting_vonage_def messagesSend_calls_def Let_def lit_def)

section \<open>Failed initialisation\<close>

text \<open>
  A service that the constructor built is ready with a client, or rejected without one:
  the guard \<open>if (!this.ai)\<close> of \<open>generateReply\<close>, which throws the not-ready error, is
  only reached with a client in place.
\<close>

lemma constructor_ready_iff_client:
  "LLMService_new GEMINI_API_KEY prompt imported = Inr this \<Longrightarrow>
     (isReady this = Fulfilled \<and> (\<exists>client. ai this = Some client \<and> imported = Inr client))
     \<or> (\<exists>err. isReady this = Rejected err \<and> ai this = None \<and> imported = Inl err)"
  by (auto simp: LLMService_new_def split: if_splits sum.splits)

text \<open>
  After a failed initialisation every call of \<open>generateReply\<close> throws the error that made
  the initialisation fail, which \<open>await this.isReady\<close> throws again; it returns no
  apology and makes no generation call.
\<close>

lemma failed_initialisation_rethrows:
  assumes "LLMService_new GEMINI_API_KEY prompt (Inl err) = Inr this"
  shows "fst (generateReply this userMessage) = Inl err
       \<and> fst (generateReply this userMessage) \<noteq> Inr APOLOGY
       \<and> generateContent_calls (snd (generateReply this userMessage)) = []"
proof -
  from assms have "isReady this = Rejected err"
    by (auto simp: LLMService_new_def split: if_splits)
  then have "generateReply this userMessage = (Inl err, [])"
    by (simp add: generateReply_def)
  then show ?thesis
    by (simp add: generateContent_calls_def)
qed

text \<open>
  C7 has every call after a failed initialisation fail with the not-ready error. The
  dynamic import fails with \<open>Cannot find package @google/genai\<close>: the constructor gives
  the service \<open>failed_llm\<close>, and \<open>generateReply\<close> on it throws that import error, which
  is not the not-ready error that the guard two lines further down would throw; no
  generation call is made.
\<close>

theorem C7_failing_input:
  "LLMService_new (Some (lit ''key'')) (lit ''You are Ari'') (Inl import_error) = Inr failed_llm
   \<and> generateReply failed_llm (JStr (lit ''hi'')) = (Inl import_error, [])
   \<and> import_error \<noteq> NOT_READY"
  by (simp add: LLMService_new_def failed_llm_def generateReply_def import_error_def
      NOT_READY_def lit_def)

section \<open>The text branch of the handler\<close>

text \<open>
  For a parsed payload with \<open>message_type\<close> equal to \<open>"text"\<close> and a truthy \<open>text\<close>, whose
  \<open>from\<close> and \<open>text\<close> convert to strings: the handler responds 200, calls \<open>generateReply\<close>
  exactly once, with the text, and, when that call returns a reply (the model's or the
  apology), calls \<open>sendTextMessage\<close> exactly once, with the sender and that reply.
\<close>

lemma text_message_pipeline:
  assumes "get_prop message (lit ''message_type'') = Inr (JStr (lit ''text''))"
    and "get_prop message (lit ''text'') = Inr textContent" and "js_truthy textContent"
    and "get_prop message (lit ''from'') = Inr sender"
    and "\<not> to_string_throws sender" and "\<not> to_string_throws textContent"
  shows "fst (inbound_handler sv (Inr message)) = Inr OK_200"
    and "generateReply_calls (snd (inbound_handler sv (Inr message))) = [textContent]"
    and "fst (generateReply (llmService sv) textContent) = Inr reply \<Longrightarrow>
           sendTextMessage_calls (snd (inbound_handler sv (Inr message))) = [(sender, reply)]"
proof -
  from assms have run: "inbound_handler sv (Inr message)
      = (Inr OK_200, reply_block sv sender textContent)"
    by (simp add: inbound_handler_def template_literal_def)
  then show "fst (inbound_handler sv (Inr message)) = Inr OK_200"
    by simp
  obtain r t1 where g: "generateReply (llmService sv) textContent = (r, t1)"
    by force
  from generateReply_shape [OF g] g run
  show "generateReply_calls (snd (inbound_handler sv (Inr message))) = [textContent]"
    by (auto simp: reply_block_def generateReply_calls_def sendTextMessage_def Let_def
        split: sum.splits)
  assume "fst (generateReply (llmService sv) textContent) = Inr reply"
  with generateReply_shape [OF g] g run
  show "sendTextMessage_calls (snd (inbound_handler sv (Inr message))) = [(sender, reply)]"
    by (auto simp: reply_block_def sendTextMessage_calls_def sendTextMessage_def Let_def
        split: sum.splits)
qed

text \<open>
  C1 has this for every payload with \<open>message_type\<close> equal to \<open>"text"\<close> and a non-empty
  text. On the payload \<open>{"from": {"toString": 1}, "message_type": "text", "text": "hi"}\<close>
  the log line in front of the \<open>try\<close> block throws a \<open>TypeError\<close> while it converts \<open>from\<close>
  to a string: the handler calls neither \<open>generateReply\<close> nor \<open>sendTextMessage\<close> and
  sends no response.
\<close>

theorem C1_failing_input:
  "inbound_handler (example_services greeting_client accepting_vonage)
     (Inr (text_message (JObj [(lit ''toString'', JNum 1)]) (JStr (lit ''hi''))))
   = (Inl (TypeError (lit ''Cannot convert object to primitive value'')), [])"
  by (simp add: inbound_handler_def text_message_def template_literal_def lit_def)

section \<open>The other branches of the handler\<close>

text \<open>
  Outside the text branch the handler makes no call, whatever else happens; and it
  responds 200 when the payload's properties can be read and those it logs convert to
  strings.
\<close>

lemma no_calls_outside_text_branch:
  assumes "get_prop message (lit ''message_type'') \<noteq> Inr (JStr (lit ''text''))
           \<or> (\<exists>t. get_prop message (lit ''text'') = Inr t \<and> \<not> js_truthy t)"
  shows "snd (inbound_handler sv (Inr message)) = []"
  using assms
  by (auto simp: inbound_handler_def split: sum.splits)

lemma acknowledged_outside_text_branch:
  assumes "get_prop message (lit ''message_type'') = Inr messageType"
    and "get_prop message (lit ''text'') = Inr textContent"
    and "messageType \<noteq> JStr (lit ''text'') \<or> \<not> js_truthy textContent"
    and "get_prop message (lit ''from'') = Inr sender"
    and "get_prop message (lit ''status'') = Inr st"
    and "get_prop message (lit ''messageId'') = Inr messageId"
    and "\<not> to_string_throws messageType" and "\<not> to_string_throws sender"
    and "\<not> to_string_throws st" and "\<not> to_string_throws messageId"
  shows "inbound_handler sv (Inr message) = (Inr OK_200, [])"
  using assms
  by (auto simp: inbound_handler_def template_literal_def split: sum.splits)

text \<open>
  C4 has the handler respond 200 on every parsed payload that is not a text message with
  a non-empty text. On the body \<open>null\<close>, which is valid JSON, reading \<open>message.from\<close> throws a
  \<open>TypeError\<close>: the handler makes no call, and sends no response.
\<close>

theorem C4_failing_input:
  "inbound_handler (example_services greeting_client accepting_vonage) (Inr JNull)
   = (Inl (TypeError (lit ''Cannot read properties of null (reading '' @ [0x27] @ lit ''from''
            @ [0x27] @ lit '')'')), [])"
  by (simp add: inbound_handler_def lit_def)

end
